theory Spec2Isabelle
  imports Main
begin

section \<open>The Python primitives the script relies on\<close>

text \<open>
  The generator \<^verbatim>\<open>ImtConflictPerfTestGen.py\<close> is a flat script: it reads one
  command-line argument, converts it with \<^verbatim>\<open>int\<close>, and then writes Java source
  text with a sequence of \<^verbatim>\<open>print\<close> calls, some of them inside \<^verbatim>\<open>for\<close> loops
  over \<^verbatim>\<open>range\<close>. Python integers are unbounded and are modelled by \<open>int\<close>;
  strings are modelled by \<open>string\<close>, and standard output is the text written so far.
\<close>

definition nl :: char where
  "nl = CHR 0x0A"

text \<open>\<^verbatim>\<open>print(s)\<close> writes \<open>s\<close> followed by one newline.\<close>

definition print :: "string \<Rightarrow> string" where
  "print s = s @ [nl]"

text \<open>
  A run of \<^verbatim>\<open>print\<close> calls, given as the list of their arguments in program
  order, writes the concatenation of what each call writes.
\<close>

definition print_all :: "string list \<Rightarrow> string" where
  "print_all ps = concat (map print ps)"

text \<open>
  \<^verbatim>\<open>range(n)\<close> enumerates \<open>0, 1, ..., n - 1\<close> and is empty when \<open>n \<le> 0\<close>.
\<close>

definition range_py :: "int \<Rightarrow> int list" where
  "range_py n = map int [0..<nat n]"

text \<open>
  The decimal digits of a natural number, most significant first, and the
  replacement of a \<^verbatim>\<open>{}\<close> field by an integer, which is \<^verbatim>\<open>str\<close> of it: a minus
  sign for a negative number, then the digits of the absolute value.
\<close>

definition digit_char :: "nat \<Rightarrow> char" where
  "digit_char d = char_of (48 + d)"

fun digits :: "nat \<Rightarrow> string" where
  "digits n = (if n < 10 then [digit_char n] else digits (n div 10) @ [digit_char (n mod 10)])"

declare digits.simps [simp del]

definition str_int :: "int \<Rightarrow> string" where
  "str_int i = (if i < 0 then CHR ''-'' # digits (nat (- i)) else digits (nat i))"

text \<open>
  The field \<^verbatim>\<open>{:02d}\<close>: decimal, padded with zeros to a width of two, the sign
  counting towards the width and standing before the padding.
\<close>

definition format_02d :: "int \<Rightarrow> string" where
  "format_02d i =
     (if i < 0 then CHR ''-'' # replicate (1 - length (digits (nat (- i)))) CHR ''0'' @ digits (nat (- i))
      else replicate (2 - length (digits (nat i))) CHR ''0'' @ digits (nat i))"

text \<open>\<^verbatim>\<open>sep.join(xs)\<close>.\<close>

fun join :: "string \<Rightarrow> string list \<Rightarrow> string" where
  "join sep [] = []"
| "join sep [x] = x"
| "join sep (x # y # ys) = x @ sep @ join sep (y # ys)"

text \<open>
  \<^verbatim>\<open>int(s)\<close> on a string, base ten. On a string of ASCII characters the interpreter
  drops the surrounding whitespace, which is tab, line feed, vertical tab, form feed,
  carriage return and space; one sign may come first; and what remains must be a
  non-empty run of decimal digits in which single underscores may stand between two
  digits. Anything else raises \<^verbatim>\<open>ValueError\<close>. Python integers are unbounded; the
  interpreter's configurable limit on the length of a decimal numeral is not modelled.
\<close>

datatype py_error = IndexError | ValueError

definition is_space :: "char \<Rightarrow> bool" where
  "is_space c = ((9 \<le> (of_char c :: nat) \<and> (of_char c :: nat) \<le> 13) \<or> (of_char c :: nat) = 32)"

definition is_digit :: "char \<Rightarrow> bool" where
  "is_digit c = (48 \<le> (of_char c :: nat) \<and> (of_char c :: nat) \<le> 57)"

definition digit_val :: "char \<Rightarrow> nat" where
  "digit_val c = of_char c - 48"

definition strip :: "string \<Rightarrow> string" where
  "strip s = rev (dropWhile is_space (rev (dropWhile is_space s)))"

fun int_digits :: "bool \<Rightarrow> nat \<Rightarrow> string \<Rightarrow> nat option" where
  "int_digits prev acc [] = (if prev then Some acc else None)"
| "int_digits prev acc (c # cs) =
     (if is_digit c then int_digits True (10 * acc + digit_val c) cs
      else if c = CHR ''_'' \<and> prev then int_digits False acc cs
      else None)"

definition int_ascii :: "string \<Rightarrow> py_error + int" where
  "int_ascii s =
     (case strip s of
        [] \<Rightarrow> Inl ValueError
      | c # cs \<Rightarrow>
          if c = CHR ''-'' then
            (case int_digits False 0 cs of None \<Rightarrow> Inl ValueError | Some n \<Rightarrow> Inr (- int n))
          else if c = CHR ''+'' then
            (case int_digits False 0 cs of None \<Rightarrow> Inl ValueError | Some n \<Rightarrow> Inr (int n))
          else
            (case int_digits False 0 (c # cs) of None \<Rightarrow> Inl ValueError | Some n \<Rightarrow> Inr (int n)))"

text \<open>
  On a string with a character beyond ASCII, \<^verbatim>\<open>int\<close> consults the interpreter's Unicode
  tables for further whitespace and decimal digits. These tables are no part of the
  script, so this half of the conversion is a parameter, \<open>int_unicode\<close>, of the model, and
  every result below holds whatever it is.
\<close>

definition is_ascii :: "string \<Rightarrow> bool" where
  "is_ascii s = list_all (\<lambda>c. (of_char c :: nat) < 128) s"

definition py_int :: "(string \<Rightarrow> py_error + int) \<Rightarrow> string \<Rightarrow> py_error + int" where
  "py_int int_unicode s = (if is_ascii s then int_ascii s else int_unicode s)"

text \<open>\<^verbatim>\<open>sys.argv[1]\<close>: the element after the script's own name, if there is one.\<close>

definition argv_1 :: "string list \<Rightarrow> py_error + string" where
  "argv_1 argv = (if 1 < length argv then Inr (argv ! 1) else Inl IndexError)"


section \<open>The script\<close>

definition max_conflict_depth :: int where
  "max_conflict_depth = 20"

definition usage :: string where
  "usage = ''Usage: python ImtConflictPerfTestGen.py <IMT_SIZE>''"

definition license :: string where
  \<open>license =
    ''/*\<newline>'' @
    '' * Copyright 2016 The Android Open Source Project\<newline>'' @
    '' *\<newline>'' @
    '' * Licensed under the Apache License, Version 2.0 (the "License");\<newline>'' @
    '' * you may not use this file except in compliance with the License.\<newline>'' @
    '' * You may obtain a copy of the License at\<newline>'' @
    '' *\<newline>'' @
    '' *      http://www.apache.org/licenses/LICENSE-2.0\<newline>'' @
    '' *\<newline>'' @
    '' * Unless required by applicable law or agreed to in writing, software\<newline>'' @
    '' * distributed under the License is distributed on an "AS IS" BASIS,\<newline>'' @
    '' * WITHOUT WARRANTIES OR CONDITIONS OF ANY KIND, either express or implied.\<newline>'' @
    '' * See the License for the specific language governing permissions and\<newline>'' @
    '' * limitations under the License.\<newline>'' @
    '' */\<newline>''\<close>

definition description :: string where
  \<open>description =
    ''\<newline>'' @
    ''/**\<newline>'' @
    '' * This file is script-generated by ImtConflictPerfTestGen.py.\<newline>'' @
    '' * It measures the performance impact of conflicts in interface method tables.\<newline>'' @
    '' * Run `python ImtConflictPerfTestGen.py > ImtConflictPerfTest.java` to regenerate.\<newline>'' @
    '' *\<newline>'' @
    '' * Each interface has 64 methods, which is the current size of an IMT. C0 implements\<newline>'' @
    '' * one interface, C1 implements two, C2 implements three, and so on. The intent\<newline>'' @
    '' * is that C0 has no conflicts in its IMT, C1 has depth-2 conflicts in\<newline>'' @
    '' * its IMT, C2 has depth-3 conflicts, etc. This is currently guaranteed by\<newline>'' @
    '' * the fact that we hash interface methods by taking their method index modulo 64.\<newline>'' @
    '' * (Note that a "conflict depth" of 1 means no conflict at all.)\<newline>'' @
    '' */''\<close>

definition imports_decl :: string where
  \<open>imports_decl =
    ''\<newline>'' @
    ''import android.perftests.utils.BenchmarkState;\<newline>'' @
    ''import android.perftests.utils.PerfStatusReporter;\<newline>'' @
    ''import android.test.suitebuilder.annotation.LargeTest;\<newline>'' @
    ''\<newline>'' @
    ''import androidx.test.runner.AndroidJUnit4;\<newline>'' @
    ''\<newline>'' @
    ''import org.junit.Before;\<newline>'' @
    ''import org.junit.Rule;\<newline>'' @
    ''import org.junit.Test;\<newline>'' @
    ''import org.junit.runner.RunWith;\<newline>''\<close>

text \<open>
  Each of the following definitions lists, in program order, the arguments of the
  \<^verbatim>\<open>print\<close> calls of one stretch of the script. A \<^verbatim>\<open>for\<close> loop contributes the
  calls of its body once per element of its range, in order.
\<close>

text \<open>Lines 59 to 81: the fixed top of the file and the opening of the test class.\<close>

definition preamble :: "string list" where
  "preamble =
     [license,
      ''package android.libcore;'',
      imports_decl,
      description,
      ''@RunWith(AndroidJUnit4.class)'',
      ''@LargeTest'',
      ''public class ImtConflictPerfTest {'',
      ''    @Rule'',
      ''    public PerfStatusReporter mPerfStatusReporter = new PerfStatusReporter();'',
      '''']"

text \<open>Lines 83 to 89: the set-up method that warms the interface method tables up.\<close>

definition setup_call :: "int \<Rightarrow> int \<Rightarrow> int \<Rightarrow> string" where
  "setup_call imt_size i j = ''        callF'' @ str_int (imt_size * j) @ ''(c'' @ str_int i @ '');''"

definition new_instance :: "int \<Rightarrow> string" where
  "new_instance i = ''        C'' @ str_int i @ '' c'' @ str_int i @ '' = new C'' @ str_int i @ ''();''"

definition setup_block :: "int \<Rightarrow> int \<Rightarrow> string list" where
  "setup_block imt_size i = new_instance i # map (setup_call imt_size i) (range_py (i + 1))"

definition setup_method :: "int \<Rightarrow> string list" where
  "setup_method imt_size =
     [''    @Before'', ''    public void setup() {'']
     @ concat (map (setup_block imt_size) (range_py max_conflict_depth))
     @ [''    }'']"

text \<open>Lines 92 to 103: one test case for each conflict depth.\<close>

definition test_call :: "int \<Rightarrow> int \<Rightarrow> int \<Rightarrow> string" where
  "test_call imt_size i j =
     ''            callF'' @ str_int (imt_size * (j mod (i + 1))) @ ''(c'' @ str_int i @ '');''"

definition test_method :: "int \<Rightarrow> int \<Rightarrow> string list" where
  "test_method imt_size i =
     [''    @Test'',
      ''    public void timeConflictDepth'' @ format_02d (i + 1) @ ''() {'',
      new_instance i,
      ''        BenchmarkState state = mPerfStatusReporter.getBenchmarkState();'',
      ''        while (state.keepRunning()) {'']
     @ map (test_call imt_size i) (range_py max_conflict_depth)
     @ [''        }'',
        ''    }'']"

definition test_methods :: "int \<Rightarrow> string list" where
  "test_methods imt_size = concat (map (test_method imt_size) (range_py max_conflict_depth))"

text \<open>Lines 106 and 107: the calls through the interface method tables.\<close>

definition call_helper :: "int \<Rightarrow> int \<Rightarrow> string" where
  "call_helper imt_size i =
     ''    public void callF'' @ str_int (imt_size * i) @ ''(I'' @ str_int i
       @ '' i) { i.f'' @ str_int (imt_size * i) @ ''(); }''"

definition call_helpers :: "int \<Rightarrow> string list" where
  "call_helpers imt_size = map (call_helper imt_size) (range_py max_conflict_depth)"

text \<open>Lines 110 to 112: the classes, implementing varying amounts of interfaces.\<close>

definition interfaces :: "int \<Rightarrow> string" where
  "interfaces i = join '', '' (map (\<lambda>j. ''I'' @ str_int j) (range_py (i + 1)))"

definition class_def :: "int \<Rightarrow> string" where
  "class_def i = ''    static class C'' @ str_int i @ '' implements '' @ interfaces i @ '' {}''"

definition class_defs :: "string list" where
  "class_defs = map class_def (range_py max_conflict_depth)"

text \<open>Lines 115 to 119: the interfaces, each with \<open>imt_size\<close> default methods.\<close>

definition method_decl :: "int \<Rightarrow> int \<Rightarrow> int \<Rightarrow> string" where
  "method_decl imt_size i j = ''        default void f'' @ str_int (i * imt_size + j) @ ''() {}''"

definition interface_def :: "int \<Rightarrow> int \<Rightarrow> string list" where
  "interface_def imt_size i =
     (''    interface I'' @ str_int i @ '' {'')
     # map (method_decl imt_size i) (range_py imt_size)
     @ [''    }'']"

definition interface_defs :: "int \<Rightarrow> string list" where
  "interface_defs imt_size = concat (map (interface_def imt_size) (range_py max_conflict_depth))"

text \<open>Lines 59 to 121: everything the script prints once the argument is converted.\<close>

definition generate :: "int \<Rightarrow> string list" where
  "generate imt_size =
     preamble
     @ setup_method imt_size
     @ test_methods imt_size
     @ call_helpers imt_size
     @ class_defs
     @ interface_defs imt_size
     @ [''}'']"

text \<open>
  Lines 21 to 25 and the rest: the outcome of a run is the text on standard output
  and the exit status. Both exceptions of the conversion are caught by the one handler,
  which prints the usage line and exits with status 1; otherwise the script runs to its
  end, and the interpreter exits with status 0.
\<close>

record outcome =
  stdout :: string
  exit_status :: int

definition main :: "(string \<Rightarrow> py_error + int) \<Rightarrow> string list \<Rightarrow> outcome" where
  "main int_unicode argv =
     (case (case argv_1 argv of Inl e \<Rightarrow> Inl e | Inr s \<Rightarrow> py_int int_unicode s) of
        Inl e \<Rightarrow> \<lparr>stdout = print_all [usage], exit_status = 1\<rparr>
      | Inr imt_size \<Rightarrow> \<lparr>stdout = print_all (generate imt_size), exit_status = 0\<rparr>)"


section \<open>Reading the output back\<close>

text \<open>
  The claims speak about the lines of the generated file, so the text is cut at its
  newlines again, and lines are recognised by how they start.
\<close>

fun lines_from :: "string \<Rightarrow> string \<Rightarrow> string list" where
  "lines_from cur [] = (if cur = [] then [] else [rev cur])"
| "lines_from cur (c # cs) = (if c = nl then rev cur # lines_from [] cs else lines_from (c # cur) cs)"

definition lines_of :: "string \<Rightarrow> string list" where
  "lines_of text = lines_from [] text"

fun starts_with :: "string \<Rightarrow> string \<Rightarrow> bool" where
  "starts_with [] s = True"
| "starts_with (p # ps) [] = False"
| "starts_with (p # ps) (c # cs) = (p = c \<and> starts_with ps cs)"

fun contains :: "string \<Rightarrow> string \<Rightarrow> bool" where
  "contains sub [] = (sub = [])"
| "contains sub (c # cs) = (starts_with sub (c # cs) \<or> contains sub cs)"

text \<open>The lines of the file generated for a given \<open>imt_size\<close>.\<close>

definition output_lines :: "int \<Rightarrow> string list" where
  "output_lines imt_size = lines_of (print_all (generate imt_size))"

text \<open>
  The fixed top of the file, lines 59 to 81 of the script, cut at its newlines: the
  license, the package and import declarations, the documentation comment and the opening
  of the test class.
\<close>

definition preamble_lines :: "string list" where
  \<open>preamble_lines =
     [''/*'',
      '' * Copyright 2016 The Android Open Source Project'',
      '' *'',
      '' * Licensed under the Apache License, Version 2.0 (the "License");'',
      '' * you may not use this file except in compliance with the License.'',
      '' * You may obtain a copy of the License at'',
      '' *'',
      '' *      http://www.apache.org/licenses/LICENSE-2.0'',
      '' *'',
      '' * Unless required by applicable law or agreed to in writing, software'',
      '' * distributed under the License is distributed on an "AS IS" BASIS,'',
      '' * WITHOUT WARRANTIES OR CONDITIONS OF ANY KIND, either express or implied.'',
      '' * See the License for the specific language governing permissions and'',
      '' * limitations under the License.'',
      '' */'',
      '''',
      ''package android.libcore;'',
      '''',
      ''import android.perftests.utils.BenchmarkState;'',
      ''import android.perftests.utils.PerfStatusReporter;'',
      ''import android.test.suitebuilder.annotation.LargeTest;'',
      '''',
      ''import androidx.test.runner.AndroidJUnit4;'',
      '''',
      ''import org.junit.Before;'',
      ''import org.junit.Rule;'',
      ''import org.junit.Test;'',
      ''import org.junit.runner.RunWith;'',
      '''',
      '''',
      ''/**'',
      '' * This file is script-generated by ImtConflictPerfTestGen.py.'',
      '' * It measures the performance impact of conflicts in interface method tables.'',
      '' * Run `python ImtConflictPerfTestGen.py > ImtConflictPerfTest.java` to regenerate.'',
      '' *'',
      '' * Each interface has 64 methods, which is the current size of an IMT. C0 implements'',
      '' * one interface, C1 implements two, C2 implements three, and so on. The intent'',
      '' * is that C0 has no conflicts in its IMT, C1 has depth-2 conflicts in'',
      '' * its IMT, C2 has depth-3 conflicts, etc. This is currently guaranteed by'',
      '' * the fact that we hash interface methods by taking their method index modulo 64.'',
      '' * (Note that a "conflict depth" of 1 means no conflict at all.)'',
      '' */'',
      ''@RunWith(AndroidJUnit4.class)'',
      ''@LargeTest'',
      ''public class ImtConflictPerfTest {'',
      ''    @Rule'',
      ''    public PerfStatusReporter mPerfStatusReporter = new PerfStatusReporter();'',
      '''']\<close>

text \<open>What the script prints after the fixed top.\<close>

definition body :: "int \<Rightarrow> string list" where
  "body imt_size =
     setup_method imt_size @ test_methods imt_size @ call_helpers imt_size
     @ class_defs @ interface_defs imt_size @ [''}'']"



section \<open>Decimal numerals\<close>

lemma of_char_digit_char: "d < 10 \<Longrightarrow> (of_char (digit_char d) :: nat) = 48 + d"
  by (simp add: digit_char_def)

lemma digit_char_inj:
  assumes "a < 10" and "b < 10" and "digit_char a = digit_char b"
  shows "a = b"
proof -
  from assms(3) have "(of_char (digit_char a) :: nat) = of_char (digit_char b)"
    by (rule arg_cong)
  then have "48 + a = 48 + b"
    by (simp only: of_char_digit_char [OF assms(1)] of_char_digit_char [OF assms(2)])
  then show ?thesis by simp
qed

lemma digits_nonempty: "digits n \<noteq> []"
  by (subst digits.simps) simp

lemma digits_is_digit: "c \<in> set (digits n) \<Longrightarrow> is_digit c"
proof (induction n arbitrary: c rule: digits.induct)
  case (1 n)
  show ?case
  proof (cases "n < 10")
    case True
    with "1.prems" have "c = digit_char n"
      by (subst (asm) digits.simps) simp
    with True show ?thesis
      by (simp add: is_digit_def of_char_digit_char)
  next
    case False
    with "1.prems" have "c \<in> set (digits (n div 10)) \<or> c = digit_char (n mod 10)"
      by (subst (asm) digits.simps) auto
    then show ?thesis
    proof
      assume "c \<in> set (digits (n div 10))"
      with False "1.IH" show ?thesis by blast
    next
      assume "c = digit_char (n mod 10)"
      then show ?thesis
        by (simp add: is_digit_def of_char_digit_char)
    qed
  qed
qed

lemma digits_inj: "digits n = digits m \<Longrightarrow> n = m"
proof (induction n arbitrary: m rule: digits.induct)
  case (1 n)
  show ?case
  proof (cases "n < 10")
    case n_small: True
    show ?thesis
    proof (cases "m < 10")
      case True
      with n_small "1.prems" have "digit_char n = digit_char m"
        by (simp add: digits.simps [of n] digits.simps [of m])
      with n_small True show ?thesis
        by (rule digit_char_inj)
    next
      case False
      with n_small "1.prems" have "digits (m div 10) = []"
        by (simp add: digits.simps [of n] digits.simps [of m])
      then show ?thesis
        by (simp add: digits_nonempty)
    qed
  next
    case n_big: False
    show ?thesis
    proof (cases "m < 10")
      case True
      with n_big "1.prems" have "digits (n div 10) = []"
        by (simp add: digits.simps [of n] digits.simps [of m])
      then show ?thesis
        by (simp add: digits_nonempty)
    next
      case False
      with n_big "1.prems" have eq: "digits (n div 10) = digits (m div 10)"
        and last: "digit_char (n mod 10) = digit_char (m mod 10)"
        by (simp_all add: digits.simps [of n] digits.simps [of m])
      from eq n_big "1.IH" have "n div 10 = m div 10"
        by blast
      moreover from last have "n mod 10 = m mod 10"
        by (intro digit_char_inj) simp_all
      ultimately show ?thesis
        using div_mult_mod_eq [of n 10] div_mult_mod_eq [of m 10] by arith
    qed
  qed
qed

lemma digits_eq_iff: "digits n = digits m \<longleftrightarrow> n = m"
  using digits_inj by blast

lemma minus_not_digit: "\<not> is_digit CHR ''-''"
  by (simp add: is_digit_def)

lemma nl_not_digit: "\<not> is_digit nl"
  by (simp add: is_digit_def nl_def)

lemma digits_no_minus: "digits k \<noteq> CHR ''-'' # cs"
proof
  assume "digits k = CHR ''-'' # cs"
  then have "CHR ''-'' \<in> set (digits k)" by simp
  then show False using digits_is_digit minus_not_digit by blast
qed

lemma str_int_eq_iff: "str_int a = str_int b \<longleftrightarrow> a = b"
proof
  assume eq: "str_int a = str_int b"
  consider "a < 0" "b < 0" | "a < 0" "0 \<le> b" | "0 \<le> a" "b < 0" | "0 \<le> a" "0 \<le> b"
    by linarith
  then show "a = b"
  proof cases
    case 1
    with eq have "digits (nat (- a)) = digits (nat (- b))"
      by (simp add: str_int_def)
    then have "nat (- a) = nat (- b)"
      by (simp only: digits_eq_iff)
    with 1 show ?thesis by linarith
  next
    case 2
    with eq have "digits (nat b) = CHR ''-'' # digits (nat (- a))"
      by (simp add: str_int_def)
    then show ?thesis by (simp only: digits_no_minus)
  next
    case 3
    with eq have "digits (nat a) = CHR ''-'' # digits (nat (- b))"
      by (simp add: str_int_def)
    then show ?thesis by (simp only: digits_no_minus)
  next
    case 4
    with eq have "digits (nat a) = digits (nat b)"
      by (simp add: str_int_def)
    then have "nat a = nat b"
      by (simp only: digits_eq_iff)
    with 4 show ?thesis by linarith
  qed
next
  assume "a = b"
  then show "str_int a = str_int b" by simp
qed

lemma nl_notin_digits: "nl \<notin> set (digits n)"
  using digits_is_digit [of nl n] nl_not_digit by blast

lemma nl_notin_str_int: "nl \<notin> set (str_int i)"
proof (cases "i < 0")
  case True
  have "nl \<noteq> CHR ''-''" by (simp add: nl_def)
  with True show ?thesis by (simp add: str_int_def nl_notin_digits)
next
  case False
  then show ?thesis by (simp add: str_int_def nl_notin_digits)
qed

lemma nl_notin_format_02d: "nl \<notin> set (format_02d i)"
proof -
  have "nl \<noteq> CHR ''-''" "nl \<noteq> CHR ''0''" by (simp_all add: nl_def)
  then show ?thesis by (simp add: format_02d_def nl_notin_digits)
qed


section \<open>Cutting the output into lines\<close>

lemma lines_from_cut: "lines_from cur (s @ nl # t) = lines_from cur (s @ [nl]) @ lines_from [] t"
  by (induction s arbitrary: cur) simp_all

lemma lines_from_line: "nl \<notin> set s \<Longrightarrow> lines_from cur (s @ [nl]) = [rev cur @ s]"
  by (induction s arbitrary: cur) auto

lemma lines_of_print_all_append:
  "lines_of (print_all ps @ t) = lines_of (print_all ps) @ lines_of t"
proof (induction ps)
  case Nil
  show ?case by (simp add: lines_of_def print_all_def)
next
  case (Cons p ps)
  have cut: "lines_of (p @ nl # x) = lines_from [] (p @ [nl]) @ lines_of x" for x
    unfolding lines_of_def by (rule lines_from_cut)
  have "lines_of (print_all (p # ps) @ t) = lines_of (p @ nl # (print_all ps @ t))"
    by (simp add: print_all_def print_def)
  also have "\<dots> = lines_from [] (p @ [nl]) @ lines_of (print_all ps @ t)"
    by (rule cut)
  also have "\<dots> = lines_from [] (p @ [nl]) @ lines_of (print_all ps) @ lines_of t"
    by (simp only: Cons.IH)
  also have "\<dots> = lines_of (p @ nl # print_all ps) @ lines_of t"
    by (simp only: cut append_assoc)
  also have "p @ nl # print_all ps = print_all (p # ps)"
    by (simp add: print_all_def print_def)
  finally show ?case .
qed

lemma print_all_append: "print_all (ps @ qs) = print_all ps @ print_all qs"
  by (simp add: print_all_def)

lemma lines_of_print_all:
  "(\<And>p. p \<in> set ps \<Longrightarrow> nl \<notin> set p) \<Longrightarrow> lines_of (print_all ps) = ps"
proof (induction ps)
  case Nil
  show ?case by (simp add: lines_of_def print_all_def)
next
  case (Cons p ps)
  have "lines_of (print_all (p # ps)) = lines_of (print_all [p] @ print_all ps)"
    by (simp add: print_all_def)
  also have "\<dots> = lines_of (print_all [p]) @ lines_of (print_all ps)"
    by (rule lines_of_print_all_append)
  also have "lines_of (print_all [p]) = [p]"
    using Cons.prems [of p] by (simp add: lines_of_def print_all_def print_def lines_from_line)
  also have "lines_of (print_all ps) = ps"
    using Cons.prems by (intro Cons.IH) simp
  finally show ?case by simp
qed

lemma nl_eq_iff: "nl = c \<longleftrightarrow> c = CHR 0x0A"
  by (auto simp: nl_def)

lemma nl_notin_join:
  "nl \<notin> set sep \<Longrightarrow> (\<And>x. x \<in> set xs \<Longrightarrow> nl \<notin> set x) \<Longrightarrow> nl \<notin> set (join sep xs)"
  by (induction sep xs rule: join.induct) auto

lemma nl_notin_new_instance: "nl \<notin> set (new_instance i)"
  by (simp add: new_instance_def nl_notin_str_int nl_eq_iff)

lemma nl_notin_setup_call: "nl \<notin> set (setup_call n i j)"
  by (simp add: setup_call_def nl_notin_str_int nl_eq_iff)

lemma nl_notin_test_call: "nl \<notin> set (test_call n i j)"
  by (simp add: test_call_def nl_notin_str_int nl_eq_iff)

lemma nl_notin_call_helper: "nl \<notin> set (call_helper n i)"
  by (simp add: call_helper_def nl_notin_str_int nl_eq_iff)

lemma nl_notin_interfaces: "nl \<notin> set (interfaces i)"
  unfolding interfaces_def
proof (rule nl_notin_join)
  show "nl \<notin> set '', ''" by (simp add: nl_eq_iff)
next
  fix x assume "x \<in> set (map (\<lambda>j. ''I'' @ str_int j) (range_py (i + 1)))"
  then obtain j where "x = ''I'' @ str_int j" by auto
  then show "nl \<notin> set x"
    by (simp add: nl_notin_str_int nl_eq_iff)
qed

lemma nl_notin_class_def: "nl \<notin> set (class_def i)"
  by (simp add: class_def_def nl_notin_str_int nl_notin_interfaces nl_eq_iff)

lemma nl_notin_method_decl: "nl \<notin> set (method_decl n i j)"
  by (simp add: method_decl_def nl_notin_str_int nl_eq_iff)

lemma nl_notin_setup_method: "\<forall>p\<in>set (setup_method n). nl \<notin> set p"
  by (simp add: setup_method_def setup_block_def ball_Un nl_notin_new_instance
      nl_notin_setup_call nl_eq_iff)

lemma nl_notin_test_method: "\<forall>p\<in>set (test_method n i). nl \<notin> set p"
  by (simp add: test_method_def ball_Un nl_notin_new_instance nl_notin_test_call
      nl_notin_format_02d nl_eq_iff)

lemma nl_notin_test_methods: "\<forall>p\<in>set (test_methods n). nl \<notin> set p"
  by (simp add: test_methods_def nl_notin_test_method)

lemma nl_notin_call_helpers: "\<forall>p\<in>set (call_helpers n). nl \<notin> set p"
  by (simp add: call_helpers_def nl_notin_call_helper)

lemma nl_notin_class_defs: "\<forall>p\<in>set class_defs. nl \<notin> set p"
  by (simp add: class_defs_def nl_notin_class_def)

lemma nl_notin_interface_defs: "\<forall>p\<in>set (interface_defs n). nl \<notin> set p"
  by (simp add: interface_defs_def interface_def_def ball_Un nl_notin_method_decl
      nl_notin_str_int nl_eq_iff)

lemma nl_notin_body: "p \<in> set (body n) \<Longrightarrow> nl \<notin> set p"
  using nl_notin_setup_method [of n] nl_notin_test_methods [of n] nl_notin_call_helpers [of n]
    nl_notin_class_defs nl_notin_interface_defs [of n]
  by (auto simp: body_def nl_eq_iff)

lemma output_lines_eq: "output_lines n = lines_of (print_all preamble) @ body n"
proof -
  have "generate n = preamble @ body n"
    by (simp add: generate_def body_def)
  then have "output_lines n = lines_of (print_all preamble @ print_all (body n))"
    by (simp add: output_lines_def print_all_append)
  also have "\<dots> = lines_of (print_all preamble) @ lines_of (print_all (body n))"
    by (rule lines_of_print_all_append)
  also have "lines_of (print_all (body n)) = body n"
    by (rule lines_of_print_all) (rule nl_notin_body)
  finally show ?thesis .
qed

lemma starts_with_append: "starts_with p s \<Longrightarrow> starts_with p (s @ t)"
  by (induction p s rule: starts_with.induct) simp_all

lemma contains_append: "contains sub s \<Longrightarrow> contains sub (s @ t)"
proof (induction s)
  case Nil
  then show ?case by (cases t) simp_all
next
  case (Cons c cs)
  then show ?case
    using starts_with_append [of sub "c # cs" t] by auto
qed

lemma preamble_text: "print_all preamble = print_all preamble_lines"
  by (simp add: print_all_def print_def preamble_def license_def imports_decl_def
      description_def nl_def preamble_lines_def)

lemma nl_notin_preamble_lines: "p \<in> set preamble_lines \<Longrightarrow> nl \<notin> set p"
  by (auto simp: preamble_lines_def nl_eq_iff)

lemma lines_of_preamble: "lines_of (print_all preamble) = preamble_lines"
  unfolding preamble_text by (rule lines_of_print_all) (rule nl_notin_preamble_lines)

lemma preamble_contains_64: "contains ''Each interface has 64 methods'' (print_all preamble)"
  by (simp add: print_all_def print_def preamble_def license_def imports_decl_def
      description_def nl_def)


section \<open>The error path and the fixed text\<close>

lemma main_usage:
  "length argv \<le> 1 \<or> py_int u (argv ! 1) = Inl e \<Longrightarrow>
     main u argv = \<lparr>stdout = print usage, exit_status = 1\<rparr>"
  by (auto simp: main_def argv_1_def print_all_def)

lemma main_generate:
  "1 < length argv \<Longrightarrow> py_int u (argv ! 1) = Inr n \<Longrightarrow>
     main u argv = \<lparr>stdout = print_all (generate n), exit_status = 0\<rparr>"
  by (simp add: main_def argv_1_def)

lemma lines_of_print_usage: "lines_of (print usage) = [usage]"
proof -
  have "nl \<notin> set usage"
    by (simp add: usage_def nl_eq_iff)
  then show ?thesis
    by (simp add: lines_of_def print_def lines_from_line)
qed

lemma usage_notin_preamble_lines: "usage \<notin> set preamble_lines"
  by (simp add: usage_def preamble_lines_def)

lemma usage_notin_body: "usage \<notin> set (body n)"
  by (auto simp: usage_def body_def setup_method_def setup_block_def new_instance_def
      setup_call_def test_methods_def test_method_def test_call_def call_helpers_def
      call_helper_def class_defs_def class_def_def interface_defs_def interface_def_def
      method_decl_def)

lemma usage_notin_output_lines: "usage \<notin> set (output_lines n)"
  by (simp add: output_lines_eq lines_of_preamble usage_notin_preamble_lines usage_notin_body)

lemma py_int_abc: "py_int u ''abc'' = Inl ValueError"
  by (simp add: py_int_def is_ascii_def int_ascii_def strip_def is_space_def is_digit_def)

lemma py_int_64: "py_int u ''64'' = Inr 64"
  by (simp add: py_int_def is_ascii_def int_ascii_def strip_def is_space_def is_digit_def
      digit_val_def)

lemma py_int_fs_5: "py_int u [CHR 0x1C, CHR ''5''] = Inl ValueError"
  by (simp add: py_int_def is_ascii_def int_ascii_def strip_def is_space_def is_digit_def)

lemma py_int_beyond_ascii: "py_int u [CHR 0xA0, CHR ''5''] = u [CHR 0xA0, CHR ''5'']"
  by (simp add: py_int_def is_ascii_def)

text \<open>
  Claim C6. When the command-line argument is missing or \<^verbatim>\<open>int\<close> raises on it, as it does
  on \<^verbatim>\<open>abc\<close>, the program prints exactly the one usage line, exits with status 1 and
  emits no line of any generated file; when the argument converts to an integer \<open>n\<close>,
  the run prints the file generated for \<open>n\<close>, exits with status 0, and the usage line is
  not printed.
\<close>

theorem usage_on_bad_argument:
  "(length argv \<le> 1 \<or> py_int u (argv ! 1) = Inl e \<longrightarrow>
      main u argv = \<lparr>stdout = print usage, exit_status = 1\<rparr>
      \<and> lines_of (stdout (main u argv)) = [usage]
      \<and> set (lines_of (stdout (main u argv))) \<inter> set (output_lines k) = {})
   \<and> (1 < length argv \<and> py_int u (argv ! 1) = Inr n \<longrightarrow>
      main u argv = \<lparr>stdout = print_all (generate n), exit_status = 0\<rparr>
      \<and> usage \<notin> set (lines_of (stdout (main u argv))))
   \<and> py_int u ''abc'' = Inl ValueError"
proof (intro conjI impI)
  assume bad: "length argv \<le> 1 \<or> py_int u (argv ! 1) = Inl e"
  then show m: "main u argv = \<lparr>stdout = print usage, exit_status = 1\<rparr>"
    by (rule main_usage)
  then show l: "lines_of (stdout (main u argv)) = [usage]"
    by (simp add: lines_of_print_usage)
  show "set (lines_of (stdout (main u argv))) \<inter> set (output_lines k) = {}"
    unfolding l by (simp add: usage_notin_output_lines)
next
  assume good: "1 < length argv \<and> py_int u (argv ! 1) = Inr n"
  then show m: "main u argv = \<lparr>stdout = print_all (generate n), exit_status = 0\<rparr>"
    by (simp add: main_generate)
  show "usage \<notin> set (lines_of (stdout (main u argv)))"
    unfolding m using usage_notin_output_lines [of n] by (simp add: output_lines_def)
next
  show "py_int u ''abc'' = Inl ValueError"
    by (rule py_int_abc)
qed

text \<open>
  The argument \<^verbatim>\<open>abc\<close>, no argument at all, and the digit 5 after the control character
  \<open>0x1C\<close>, which is no whitespace for \<^verbatim>\<open>int\<close>, take the error path; \<^verbatim>\<open>64\<close> does not, and
  neither does an argument beyond ASCII that the interpreter converts.
\<close>

theorem usage_on_bad_argument_witness:
  "main (\<lambda>s. Inl ValueError) [''ImtConflictPerfTestGen.py'', ''abc'']
     = \<lparr>stdout = ''Usage: python ImtConflictPerfTestGen.py <IMT_SIZE>\<newline>'', exit_status = 1\<rparr>
   \<and> main (\<lambda>s. Inl ValueError) [''ImtConflictPerfTestGen.py'']
     = \<lparr>stdout = ''Usage: python ImtConflictPerfTestGen.py <IMT_SIZE>\<newline>'', exit_status = 1\<rparr>
   \<and> main (\<lambda>s. Inr 5) [''ImtConflictPerfTestGen.py'', [CHR 0x1C, CHR ''5'']]
     = \<lparr>stdout = ''Usage: python ImtConflictPerfTestGen.py <IMT_SIZE>\<newline>'', exit_status = 1\<rparr>
   \<and> exit_status (main (\<lambda>s. Inl ValueError) [''ImtConflictPerfTestGen.py'', ''64'']) = 0
   \<and> exit_status (main (\<lambda>s. Inr 5) [''ImtConflictPerfTestGen.py'', [CHR 0xA0, CHR ''5'']]) = 0"
  using usage_on_bad_argument
      [of "[''ImtConflictPerfTestGen.py'', ''abc'']" "\<lambda>s. Inl ValueError" ValueError 0 0]
    usage_on_bad_argument
      [of "[''ImtConflictPerfTestGen.py'']" "\<lambda>s. Inl ValueError" ValueError 0 0]
    usage_on_bad_argument
      [of "[''ImtConflictPerfTestGen.py'', [CHR 0x1C, CHR ''5'']]" "\<lambda>s. Inr 5" ValueError 0 0]
    usage_on_bad_argument
      [of "[''ImtConflictPerfTestGen.py'', ''64'']" "\<lambda>s. Inl ValueError" ValueError 0 64]
    usage_on_bad_argument
      [of "[''ImtConflictPerfTestGen.py'', [CHR 0xA0, CHR ''5'']]" "\<lambda>s. Inr 5" ValueError 0 5]
  by (simp add: py_int_abc py_int_64 py_int_fs_5 py_int_beyond_ascii print_def usage_def nl_def)

text \<open>
  Claim C10. Whatever \<open>imt_size\<close> is, the generated file has the documentation line
  saying that each interface has 64 methods, verbatim.
\<close>

theorem stale_64_methods_text:
  "'' * Each interface has 64 methods, which is the current size of an IMT. C0 implements''
     \<in> set (output_lines n)
   \<and> contains ''Each interface has 64 methods'' (print_all (generate n))"
proof
  show "'' * Each interface has 64 methods, which is the current size of an IMT. C0 implements''
     \<in> set (output_lines n)"
    by (simp add: output_lines_eq lines_of_preamble preamble_lines_def)
  have "contains ''Each interface has 64 methods'' (print_all preamble @ print_all (body n))"
    using preamble_contains_64 by (rule contains_append)
  then show "contains ''Each interface has 64 methods'' (print_all (generate n))"
    by (simp add: generate_def body_def print_all_append)
qed


section \<open>The layout of the generated file\<close>

lemma range_py_depth: "range_py max_conflict_depth = map int [0..<20]"
  by (simp add: range_py_def max_conflict_depth_def)

lemma length_range_py: "length (range_py n) = nat n"
  by (simp add: range_py_def)

lemma concat_upt_block:
  "i < m \<Longrightarrow>
   take (length (f i)) (drop (length (concat (map f [0..<i]))) (concat (map f [0..<m]))) = f i"
proof -
  assume "i < m"
  then have "[0..<m] = [0..<i] @ i # [Suc i..<m]"
    by (metis le_add1 less_imp_add_positive upt_add_eq_append upt_conv_Cons plus_nat.add_0)
  then have "concat (map f [0..<m]) = concat (map f [0..<i]) @ f i @ concat (map f [Suc i..<m])"
    by simp
  then show ?thesis by simp
qed

lemma length_concat_fixed:
  "(\<And>k. k < i \<Longrightarrow> length (f k) = b) \<Longrightarrow> length (concat (map f [0..<i])) = b * i"
  by (induction i) simp_all

lemma take_drop_middle: "length a = k \<Longrightarrow> length b = m \<Longrightarrow> take m (drop k (a @ b @ c)) = b"
  by simp

lemma concat_map_rows:
  "concat (map (\<lambda>i. map (\<lambda>j. g (i * n + j)) [0..<n]) [0..<m]) = map g [0..<m * n]"
proof (induction m)
  case 0
  show ?case by simp
next
  case (Suc m)
  have "[m * n..<m * n + n] = map (\<lambda>j. j + m * n) [0..<n]"
    by (simp add: map_add_upt add.commute)
  then have "map g [m * n..<m * n + n] = map (\<lambda>j. g (m * n + j)) [0..<n]"
    by (simp add: comp_def add.commute)
  moreover have "[0..<Suc m * n] = [0..<m * n] @ [m * n..<m * n + n]"
    using upt_add_eq_append [of 0 "m * n" n] by (simp add: add.commute)
  ultimately show ?case
    using Suc.IH by simp
qed

lemma length_setup_block: "0 \<le> i \<Longrightarrow> length (setup_block n i) = nat i + 2"
  by (simp add: setup_block_def length_range_py nat_add_distrib)

lemma length_test_method: "length (test_method n i) = 27"
  by (simp add: test_method_def range_py_depth)

lemma length_test_methods: "length (test_methods n) = 540"
  using length_concat_fixed [of 20 "\<lambda>k. test_method n (int k)" 27]
  by (simp add: test_methods_def range_py_depth length_test_method comp_def)

lemma length_call_helpers: "length (call_helpers n) = 20"
  by (simp add: call_helpers_def range_py_depth)

lemma length_class_defs: "length class_defs = 20"
  by (simp add: class_defs_def range_py_depth)

lemma length_preamble_lines: "length preamble_lines = 48"
  by (simp add: preamble_lines_def)

lemma length_setup_blocks:
  "length (concat (map (\<lambda>k. setup_block n (int k)) [0..<i])) = i * (i + 3) div 2"
proof (induction i)
  case 0
  show ?case by simp
next
  case (Suc i)
  have "Suc i * (Suc i + 3) = i * (i + 3) + 2 * (i + 2)"
    by (simp add: algebra_simps)
  then have "Suc i * (Suc i + 3) div 2 = i * (i + 3) div 2 + (i + 2)"
    by simp
  with Suc.IH show ?case
    by (simp add: length_setup_block)
qed

lemma length_setup_method: "length (setup_method n) = 233"
  using length_setup_blocks [of n 20]
  by (simp add: setup_method_def range_py_depth comp_def)

lemma length_interface_def: "length (interface_def n i) = nat n + 2"
  by (simp add: interface_def_def length_range_py)

lemma output_lines_sections:
  "output_lines n =
     preamble_lines @ setup_method n @ test_methods n @ call_helpers n @ class_defs
     @ interface_defs n @ [''}'']"
  by (simp add: output_lines_eq lines_of_preamble body_def)

lemmas line_defs = new_instance_def setup_call_def test_call_def call_helper_def class_def_def
  method_decl_def

lemma nth_middle: "length a = k \<Longrightarrow> i < length b \<Longrightarrow> (a @ b @ c) ! (k + i) = b ! i"
  by (auto simp: nth_append)

lemma helpers_only:
  "filter (starts_with ''    public void callF'') (output_lines n) = call_helpers n"
proof -
  let ?P = "starts_with ''    public void callF''"
  have 1: "filter ?P preamble_lines = []"
    by (simp add: preamble_lines_def)
  have 2: "filter ?P (setup_method n) = []"
    by (simp add: setup_method_def setup_block_def line_defs filter_concat comp_def filter_empty_conv)
  have 3: "filter ?P (test_methods n) = []"
    by (simp add: test_methods_def test_method_def line_defs filter_concat comp_def filter_empty_conv)
  have 4: "filter ?P (call_helpers n) = call_helpers n"
    by (simp add: call_helpers_def line_defs)
  have 5: "filter ?P class_defs = []"
    by (simp add: class_defs_def line_defs filter_empty_conv)
  have 6: "filter ?P (interface_defs n) = []"
    by (simp add: interface_defs_def interface_def_def line_defs filter_concat comp_def filter_empty_conv)
  show ?thesis
    by (simp only: output_lines_sections filter_append 1 2 3 4 5 6) simp
qed

lemma classes_only:
  "filter (starts_with ''    static class C'') (output_lines n) = class_defs"
proof -
  let ?P = "starts_with ''    static class C''"
  have 1: "filter ?P preamble_lines = []"
    by (simp add: preamble_lines_def)
  have 2: "filter ?P (setup_method n) = []"
    by (simp add: setup_method_def setup_block_def line_defs filter_concat comp_def filter_empty_conv)
  have 3: "filter ?P (test_methods n) = []"
    by (simp add: test_methods_def test_method_def line_defs filter_concat comp_def filter_empty_conv)
  have 4: "filter ?P (call_helpers n) = []"
    by (simp add: call_helpers_def line_defs filter_empty_conv)
  have 5: "filter ?P class_defs = class_defs"
    by (simp add: class_defs_def line_defs)
  have 6: "filter ?P (interface_defs n) = []"
    by (simp add: interface_defs_def interface_def_def line_defs filter_concat comp_def filter_empty_conv)
  show ?thesis
    by (simp only: output_lines_sections filter_append 1 2 3 4 5 6) simp
qed

lemma helper_at: "i < 20 \<Longrightarrow> output_lines n ! (821 + i) = call_helper n (int i)"
proof -
  assume i: "i < 20"
  have "output_lines n
      = (preamble_lines @ setup_method n @ test_methods n) @ call_helpers n
        @ (class_defs @ interface_defs n @ [''}''])"
    by (simp add: output_lines_sections)
  moreover have "length (preamble_lines @ setup_method n @ test_methods n) = 821"
    by (simp add: length_preamble_lines length_setup_method length_test_methods)
  ultimately have "output_lines n ! (821 + i) = call_helpers n ! i"
    using i by (simp only: nth_middle length_call_helpers)
  also have "\<dots> = call_helper n (int i)"
    using i by (simp add: call_helpers_def range_py_depth)
  finally show ?thesis .
qed

lemma class_at: "i < 20 \<Longrightarrow> output_lines n ! (841 + i) = class_def (int i)"
proof -
  assume i: "i < 20"
  have "output_lines n
      = (preamble_lines @ setup_method n @ test_methods n @ call_helpers n) @ class_defs
        @ (interface_defs n @ [''}''])"
    by (simp add: output_lines_sections)
  moreover have "length (preamble_lines @ setup_method n @ test_methods n @ call_helpers n) = 841"
    by (simp add: length_preamble_lines length_setup_method length_test_methods
        length_call_helpers)
  ultimately have "output_lines n ! (841 + i) = class_defs ! i"
    using i by (simp only: nth_middle length_class_defs)
  also have "\<dots> = class_def (int i)"
    using i by (simp add: class_defs_def range_py_depth)
  finally show ?thesis .
qed

lemma inj_on_fmt: "inj_on (\<lambda>k. pre @ str_int (f k) @ post) A \<longleftrightarrow> inj_on (\<lambda>k. str_int (f k)) A"
  by (simp add: inj_on_def)

lemma distinct_fmt_map:
  "distinct (map (\<lambda>k. pre @ str_int (int k) @ post) [0..<m])"
  by (simp add: distinct_map inj_on_def str_int_eq_iff)

lemma distinct_fmt_mult:
  "0 < n \<Longrightarrow> distinct (map (\<lambda>k. pre @ str_int (n * int k) @ post) [0..<m])"
  by (simp add: distinct_map inj_on_def str_int_eq_iff)


section \<open>Dispatch helpers\<close>

lemma concat_upt_split:
  "i < m \<Longrightarrow>
   concat (map f [0..<m]) = concat (map f [0..<i]) @ f i @ concat (map f [Suc i..<m])"
proof -
  assume "i < m"
  then have "[0..<m] = [0..<i] @ i # [Suc i..<m]"
    by (metis le_add1 less_imp_add_positive upt_add_eq_append upt_conv_Cons plus_nat.add_0)
  then show ?thesis by simp
qed

lemma interface_block_at:
  assumes "i < 20"
  shows "take (nat n + 2) (drop (861 + (nat n + 2) * i) (output_lines n)) = interface_def n (int i)"
proof -
  let ?f = "\<lambda>k. interface_def n (int k)"
  let ?a = "preamble_lines @ setup_method n @ test_methods n @ call_helpers n @ class_defs"
  have "interface_defs n = concat (map ?f [0..<20])"
    by (simp add: interface_defs_def range_py_depth comp_def)
  also have "\<dots> = concat (map ?f [0..<i]) @ ?f i @ concat (map ?f [Suc i..<20])"
    using assms by (rule concat_upt_split)
  finally have "output_lines n
      = (?a @ concat (map ?f [0..<i])) @ ?f i @ (concat (map ?f [Suc i..<20]) @ [''}''])"
    by (simp add: output_lines_sections)
  moreover have "length (?a @ concat (map ?f [0..<i])) = 861 + (nat n + 2) * i"
    using length_concat_fixed [of i ?f "nat n + 2"]
    by (simp add: length_preamble_lines length_setup_method length_test_methods
        length_call_helpers length_class_defs length_interface_def)
  moreover have "length (?f i) = nat n + 2"
    by (rule length_interface_def)
  ultimately show ?thesis
    by (simp only: take_drop_middle)
qed

lemma nth_of_take_drop:
  assumes "take m (drop k xs) = b" and "j < length b"
  shows "xs ! (k + j) = b ! j"
proof -
  from assms have j: "j < m" and "j < length (drop k xs)"
    by auto
  then have "k \<le> length xs"
    by simp
  then have "xs ! (k + j) = drop k xs ! j"
    by simp
  also have "\<dots> = take m (drop k xs) ! j"
    using j by simp
  finally show ?thesis
    using assms(1) by simp
qed

lemma first_method_at:
  assumes "i < 20" and "0 < n"
  shows "output_lines n ! (862 + (nat n + 2) * i) = method_decl n (int i) 0"
proof -
  have "1 < length (interface_def n (int i))"
    by (simp add: length_interface_def)
  with interface_block_at [OF assms(1), of n]
  have "output_lines n ! (861 + (nat n + 2) * i + 1) = interface_def n (int i) ! 1"
    by (rule nth_of_take_drop)
  also have "\<dots> = method_decl n (int i) 0"
    using assms(2) by (simp add: interface_def_def range_py_def nth_append)
  finally show ?thesis by (simp add: algebra_simps)
qed

lemma str_int_5: "str_int 5 = ''5''"
  by code_simp

text \<open>
  Claim C5. For a positive \<open>imt_size\<close> and every interface index \<open>i\<close> below 20, line
  \<open>821 + i\<close> of the generated file is the helper \<^verbatim>\<open>callF{imt_size*i}\<close>, which takes one
  parameter of type \<^verbatim>\<open>I{i}\<close> and calls \<^verbatim>\<open>f{imt_size*i}\<close> on it. These twenty lines are all
  the helper lines of the file, their parameter types are pairwise distinct and so are
  their names, and the method called is the first one declared by interface \<open>i\<close>.
\<close>

theorem one_helper_per_interface:
  assumes "0 < n" and "i < 20"
  shows "output_lines n ! (821 + i)
           = ''    public void callF'' @ str_int (n * int i) @ ''(I'' @ str_int (int i)
               @ '' i) { i.f'' @ str_int (n * int i) @ ''(); }''
       \<and> filter (starts_with ''    public void callF'') (output_lines n)
           = map (\<lambda>k. ''    public void callF'' @ str_int (n * int k) @ ''(I'' @ str_int (int k)
               @ '' i) { i.f'' @ str_int (n * int k) @ ''(); }'') [0..<20]
       \<and> distinct (map (\<lambda>k. ''I'' @ str_int (int k)) [0..<20])
       \<and> distinct (map (\<lambda>k. ''callF'' @ str_int (n * int k)) [0..<20])
       \<and> output_lines n ! (862 + (nat n + 2) * i)
           = ''        default void f'' @ str_int (n * int i) @ ''() {}''"
proof (intro conjI)
  show "output_lines n ! (821 + i)
           = ''    public void callF'' @ str_int (n * int i) @ ''(I'' @ str_int (int i)
               @ '' i) { i.f'' @ str_int (n * int i) @ ''(); }''"
    using assms(2) by (simp add: helper_at call_helper_def)
  show "filter (starts_with ''    public void callF'') (output_lines n)
           = map (\<lambda>k. ''    public void callF'' @ str_int (n * int k) @ ''(I'' @ str_int (int k)
               @ '' i) { i.f'' @ str_int (n * int k) @ ''(); }'') [0..<20]"
    by (simp only: helpers_only call_helpers_def range_py_depth call_helper_def map_map comp_def)
  show "distinct (map (\<lambda>k. ''I'' @ str_int (int k)) [0..<20])"
    using distinct_fmt_map [of "''I''" "[]" 20] by simp
  show "distinct (map (\<lambda>k. ''callF'' @ str_int (n * int k)) [0..<20])"
    using distinct_fmt_mult [OF assms(1), of "''callF''" "[]" 20] by simp
  show "output_lines n ! (862 + (nat n + 2) * i)
           = ''        default void f'' @ str_int (n * int i) @ ''() {}''"
    using first_method_at [OF assms(2) assms(1)] by (simp add: method_decl_def mult.commute)
qed

text \<open>The helper of interface 5 for \<open>imt_size = 1\<close>, and the method it calls.\<close>

theorem one_helper_per_interface_witness:
  "0 < (1::int) \<and> (5::nat) < 20
   \<and> output_lines 1 ! 826 = ''    public void callF5(I5 i) { i.f5(); }''
   \<and> output_lines 1 ! 877 = ''        default void f5() {}''"
proof -
  have n: "0 < (1::int)" and i: "(5::nat) < 20"
    by simp_all
  from one_helper_per_interface [OF n i]
  have "output_lines 1 ! (821 + 5)
           = ''    public void callF'' @ str_int (1 * int 5) @ ''(I'' @ str_int (int 5)
               @ '' i) { i.f'' @ str_int (1 * int 5) @ ''(); }''"
    and "output_lines 1 ! (862 + (nat 1 + 2) * 5)
           = ''        default void f'' @ str_int (1 * int 5) @ ''() {}''"
    by blast+
  then show ?thesis
    by (simp add: str_int_5)
qed


section \<open>Classes\<close>

lemma str_int_small:
  "str_int 0 = ''0''" "str_int 1 = ''1''" "str_int 2 = ''2''" "str_int 3 = ''3''"
  "str_int 4 = ''4''" "str_int 6 = ''6''"
  by code_simp+

lemma interfaces_eq:
  "interfaces (int i) = join '', '' (map (\<lambda>j. ''I'' @ str_int (int j)) [0..<Suc i])"
proof -
  have "nat (int i + 1) = Suc i"
    by simp
  then show ?thesis
    by (simp only: interfaces_def range_py_def map_map comp_def)
qed

text \<open>
  Claim C3. For every \<open>imt_size\<close> and every \<open>i\<close> below 20, line \<open>841 + i\<close> of the generated
  file declares class \<^verbatim>\<open>C{i}\<close> with an empty body, implementing the interfaces
  \<^verbatim>\<open>I0, ..., I{i}\<close> in this order, joined by a comma and a space. The list has \<open>i + 1\<close>
  distinct entries, and these twenty lines are all the class declarations of the file.
\<close>

theorem class_implements_first_interfaces:
  assumes "i < 20"
  shows "output_lines n ! (841 + i)
           = ''    static class C'' @ str_int (int i) @ '' implements ''
               @ join '', '' (map (\<lambda>j. ''I'' @ str_int (int j)) [0..<Suc i]) @ '' {}''
       \<and> length (map (\<lambda>j. ''I'' @ str_int (int j)) [0..<Suc i]) = i + 1
       \<and> distinct (map (\<lambda>j. ''I'' @ str_int (int j)) [0..<Suc i])
       \<and> filter (starts_with ''    static class C'') (output_lines n)
           = map (\<lambda>k. ''    static class C'' @ str_int (int k) @ '' implements ''
               @ join '', '' (map (\<lambda>j. ''I'' @ str_int (int j)) [0..<Suc k]) @ '' {}'') [0..<20]"
proof (intro conjI)
  show "output_lines n ! (841 + i)
           = ''    static class C'' @ str_int (int i) @ '' implements ''
               @ join '', '' (map (\<lambda>j. ''I'' @ str_int (int j)) [0..<Suc i]) @ '' {}''"
    using assms by (simp only: class_at class_def_def interfaces_eq)
  show "length (map (\<lambda>j. ''I'' @ str_int (int j)) [0..<Suc i]) = i + 1"
    by simp
  show "distinct (map (\<lambda>j. ''I'' @ str_int (int j)) [0..<Suc i])"
    using distinct_fmt_map [of "''I''" "[]" "Suc i"] by simp
  show "filter (starts_with ''    static class C'') (output_lines n)
           = map (\<lambda>k. ''    static class C'' @ str_int (int k) @ '' implements ''
               @ join '', '' (map (\<lambda>j. ''I'' @ str_int (int j)) [0..<Suc k]) @ '' {}'') [0..<20]"
    by (simp only: classes_only class_defs_def range_py_depth class_def_def interfaces_eq
        map_map comp_def)
qed

text \<open>Class \<^verbatim>\<open>C5\<close> implements \<^verbatim>\<open>I0\<close> to \<^verbatim>\<open>I5\<close>.\<close>

theorem class_implements_first_interfaces_witness:
  "(5::nat) < 20
   \<and> output_lines 1 ! 846 = ''    static class C5 implements I0, I1, I2, I3, I4, I5 {}''"
proof -
  have i: "(5::nat) < 20"
    by simp
  have "[0..<Suc 5] = [0, 1, 2, 3, 4, 5]"
    by (simp add: upt_rec)
  with class_implements_first_interfaces [OF i, of 1]
  have "output_lines 1 ! (841 + 5)
           = ''    static class C'' @ str_int (int 5) @ '' implements ''
               @ join '', '' (map (\<lambda>j. ''I'' @ str_int (int j)) [0, 1, 2, 3, 4, 5]) @ '' {}''"
    by simp
  then show ?thesis
    by (simp add: str_int_small str_int_5)
qed


section \<open>Interfaces\<close>

lemma interfaces_only:
  "filter (starts_with ''    interface I'') (output_lines n)
     = map (\<lambda>k. ''    interface I'' @ str_int (int k) @ '' {'') [0..<20]"
proof -
  let ?P = "starts_with ''    interface I''"
  have 1: "filter ?P preamble_lines = []"
    by (simp add: preamble_lines_def)
  have 2: "filter ?P (setup_method n) = []"
    by (simp add: setup_method_def setup_block_def line_defs filter_concat comp_def filter_empty_conv)
  have 3: "filter ?P (test_methods n) = []"
    by (simp add: test_methods_def test_method_def line_defs filter_concat comp_def filter_empty_conv)
  have 4: "filter ?P (call_helpers n) = []"
    by (simp add: call_helpers_def line_defs filter_empty_conv)
  have 5: "filter ?P class_defs = []"
    by (simp add: class_defs_def line_defs filter_empty_conv)
  have "filter ?P (interface_def n i) = [''    interface I'' @ str_int i @ '' {'']" for i
    by (simp add: interface_def_def line_defs filter_empty_conv)
  then have 6: "filter ?P (interface_defs n)
      = map (\<lambda>k. ''    interface I'' @ str_int (int k) @ '' {'') [0..<20]"
    by (simp add: interface_defs_def range_py_depth filter_concat comp_def)
  show ?thesis
    by (simp only: output_lines_sections filter_append 1 2 3 4 5 6) simp
qed

lemma method_rows:
  "concat (map (\<lambda>i. map (method_decl n (int i)) (range_py n)) [0..<m])
     = map (\<lambda>k. ''        default void f'' @ str_int (int k) @ ''() {}'') [0..<m * nat n]"
proof (cases "0 < n")
  case True
  let ?g = "\<lambda>k. ''        default void f'' @ str_int (int k) @ ''() {}''"
  from True have "method_decl n (int i) (int j) = ?g (i * nat n + j)" for i j
    by (simp add: method_decl_def)
  then have "concat (map (\<lambda>i. map (method_decl n (int i)) (range_py n)) [0..<m])
      = concat (map (\<lambda>i. map (\<lambda>j. ?g (i * nat n + j)) [0..<nat n]) [0..<m])"
    by (simp add: range_py_def comp_def)
  also have "\<dots> = map ?g [0..<m * nat n]"
    by (rule concat_map_rows)
  finally show ?thesis .
next
  case False
  then show ?thesis
    by (simp add: range_py_def)
qed

lemma methods_only:
  "filter (starts_with ''        default void f'') (output_lines n)
     = map (\<lambda>k. ''        default void f'' @ str_int (int k) @ ''() {}'') [0..<20 * nat n]"
proof -
  let ?P = "starts_with ''        default void f''"
  have 1: "filter ?P preamble_lines = []"
    by (simp add: preamble_lines_def)
  have 2: "filter ?P (setup_method n) = []"
    by (simp add: setup_method_def setup_block_def line_defs filter_concat comp_def filter_empty_conv)
  have 3: "filter ?P (test_methods n) = []"
    by (simp add: test_methods_def test_method_def line_defs filter_concat comp_def filter_empty_conv)
  have 4: "filter ?P (call_helpers n) = []"
    by (simp add: call_helpers_def line_defs filter_empty_conv)
  have 5: "filter ?P class_defs = []"
    by (simp add: class_defs_def line_defs filter_empty_conv)
  have "filter ?P (map (method_decl n i) js) = map (method_decl n i) js" for i js
    by (simp add: method_decl_def)
  then have "filter ?P (interface_def n i) = map (method_decl n i) (range_py n)" for i
    by (simp add: interface_def_def)
  then have "filter ?P (interface_defs n)
      = concat (map (\<lambda>i. map (method_decl n (int i)) (range_py n)) [0..<20])"
    by (simp add: interface_defs_def range_py_depth filter_concat comp_def)
  then have 6: "filter ?P (interface_defs n)
      = map (\<lambda>k. ''        default void f'' @ str_int (int k) @ ''() {}'') [0..<20 * nat n]"
    by (simp only: method_rows)
  show ?thesis
    by (simp only: output_lines_sections filter_append 1 2 3 4 5 6) simp
qed

text \<open>
  Claim C1. For a positive \<open>imt_size = n\<close> and every \<open>i\<close> below 20, the \<open>n + 2\<close> lines of
  the generated file from line \<open>861 + (n + 2) * i\<close> on are the block of interface
  \<^verbatim>\<open>I{i}\<close>: its opening line, the \<open>n\<close> default methods \<^verbatim>\<open>f{i*n + j}\<close> for \<open>j\<close> from 0 below
  \<open>n\<close>, and the closing brace. The file has exactly the twenty interface openings
  \<^verbatim>\<open>I0\<close> to \<^verbatim>\<open>I19\<close>, and all its method declarations, in order, are \<^verbatim>\<open>f0\<close> to
  \<^verbatim>\<open>f{20*n - 1}\<close>, each once.
\<close>

theorem interface_blocks:
  assumes "0 < n" and "i < 20"
  shows "take (nat n + 2) (drop (861 + (nat n + 2) * i) (output_lines n))
           = (''    interface I'' @ str_int (int i) @ '' {'')
             # map (\<lambda>j. ''        default void f'' @ str_int (int i * n + int j) @ ''() {}'')
                 [0..<nat n]
             @ [''    }'']
       \<and> length (map (\<lambda>j. ''        default void f'' @ str_int (int i * n + int j) @ ''() {}'')
                 [0..<nat n]) = nat n
       \<and> filter (starts_with ''    interface I'') (output_lines n)
           = map (\<lambda>k. ''    interface I'' @ str_int (int k) @ '' {'') [0..<20]
       \<and> filter (starts_with ''        default void f'') (output_lines n)
           = map (\<lambda>k. ''        default void f'' @ str_int (int k) @ ''() {}'') [0..<20 * nat n]
       \<and> distinct (map (\<lambda>k. ''        default void f'' @ str_int (int k) @ ''() {}'')
           [0..<20 * nat n])"
proof (intro conjI)
  show "take (nat n + 2) (drop (861 + (nat n + 2) * i) (output_lines n))
           = (''    interface I'' @ str_int (int i) @ '' {'')
             # map (\<lambda>j. ''        default void f'' @ str_int (int i * n + int j) @ ''() {}'')
                 [0..<nat n]
             @ [''    }'']"
    using assms(2)
    by (simp only: interface_block_at interface_def_def method_decl_def range_py_def map_map
        comp_def)
  show "length (map (\<lambda>j. ''        default void f'' @ str_int (int i * n + int j) @ ''() {}'')
                 [0..<nat n]) = nat n"
    by simp
  show "filter (starts_with ''    interface I'') (output_lines n)
           = map (\<lambda>k. ''    interface I'' @ str_int (int k) @ '' {'') [0..<20]"
    by (rule interfaces_only)
  show "filter (starts_with ''        default void f'') (output_lines n)
           = map (\<lambda>k. ''        default void f'' @ str_int (int k) @ ''() {}'') [0..<20 * nat n]"
    by (rule methods_only)
  show "distinct (map (\<lambda>k. ''        default void f'' @ str_int (int k) @ ''() {}'')
           [0..<20 * nat n])"
    by (rule distinct_fmt_map)
qed

text \<open>For \<open>imt_size = 1\<close>, interface \<^verbatim>\<open>I5\<close> has the single method \<^verbatim>\<open>f5\<close>.\<close>

theorem interface_blocks_witness:
  "0 < (1::int) \<and> (5::nat) < 20
   \<and> take 3 (drop 876 (output_lines 1))
       = [''    interface I5 {'', ''        default void f5() {}'', ''    }'']"
proof -
  have n: "0 < (1::int)" and i: "(5::nat) < 20"
    by simp_all
  from interface_blocks [OF n i]
  have "take (nat 1 + 2) (drop (861 + (nat 1 + 2) * 5) (output_lines 1))
           = (''    interface I'' @ str_int (int 5) @ '' {'')
             # map (\<lambda>j. ''        default void f'' @ str_int (int 5 * 1 + int j) @ ''() {}'')
                 [0..<nat 1]
             @ [''    }'']"
    by (rule conjunct1)
  then show ?thesis
    by (simp add: str_int_5 numeral_3_eq_3)
qed


section \<open>The set-up method and the test cases\<close>

lemma setup_block_at:
  assumes "i < 20"
  shows "take (i + 2) (drop (50 + i * (i + 3) div 2) (output_lines n)) = setup_block n (int i)"
proof -
  let ?f = "\<lambda>k. setup_block n (int k)"
  let ?a = "preamble_lines @ [''    @Before'', ''    public void setup() {'']"
  let ?c = "[''    }''] @ test_methods n @ call_helpers n @ class_defs @ interface_defs n @ [''}'']"
  have "setup_method n
      = [''    @Before'', ''    public void setup() {''] @ concat (map ?f [0..<20]) @ [''    }'']"
    by (simp add: setup_method_def range_py_depth comp_def)
  also have "concat (map ?f [0..<20])
      = concat (map ?f [0..<i]) @ ?f i @ concat (map ?f [Suc i..<20])"
    using assms by (rule concat_upt_split)
  finally have "output_lines n
      = (?a @ concat (map ?f [0..<i])) @ ?f i @ (concat (map ?f [Suc i..<20]) @ ?c)"
    by (simp add: output_lines_sections)
  moreover have "length (?a @ concat (map ?f [0..<i])) = 50 + i * (i + 3) div 2"
    by (simp add: length_preamble_lines length_setup_blocks)
  moreover have "length (?f i) = i + 2"
    by (simp add: length_setup_block)
  ultimately show ?thesis
    by (simp only: take_drop_middle)
qed

lemma test_method_at:
  assumes "i < 20"
  shows "take 27 (drop (281 + 27 * i) (output_lines n)) = test_method n (int i)"
proof -
  let ?f = "\<lambda>k. test_method n (int k)"
  let ?a = "preamble_lines @ setup_method n"
  let ?c = "call_helpers n @ class_defs @ interface_defs n @ [''}'']"
  have "test_methods n = concat (map ?f [0..<20])"
    by (simp add: test_methods_def range_py_depth comp_def)
  also have "\<dots> = concat (map ?f [0..<i]) @ ?f i @ concat (map ?f [Suc i..<20])"
    using assms by (rule concat_upt_split)
  finally have "output_lines n
      = (?a @ concat (map ?f [0..<i])) @ ?f i @ (concat (map ?f [Suc i..<20]) @ ?c)"
    by (simp add: output_lines_sections)
  moreover have "length (?a @ concat (map ?f [0..<i])) = 281 + 27 * i"
    using length_concat_fixed [of i ?f 27]
    by (simp add: length_preamble_lines length_setup_method length_test_method)
  moreover have "length (?f i) = 27"
    by (rule length_test_method)
  ultimately show ?thesis
    by (simp only: take_drop_middle)
qed

lemma digits_one: "k < 10 \<Longrightarrow> digits k = [digit_char k]"
  by (simp add: digits.simps)

lemma length_digits_two: "10 \<le> k \<Longrightarrow> k < 100 \<Longrightarrow> length (digits k) = 2"
  by (simp add: digits.simps [of k] digits_one)

lemma format_02d_depth:
  "i < 20 \<Longrightarrow>
   format_02d (int i + 1) = (if i < 9 then CHR ''0'' # str_int (int i + 1) else str_int (int i + 1))"
proof -
  assume i: "i < 20"
  have nat: "nat (int i + 1) = Suc i"
    by simp
  show ?thesis
  proof (cases "i < 9")
    case True
    then have "digits (Suc i) = [digit_char (Suc i)]"
      by (simp add: digits_one)
    with True show ?thesis
      by (simp add: format_02d_def str_int_def nat)
  next
    case False
    with i have "length (digits (Suc i)) = 2"
      by (simp add: length_digits_two)
    with False show ?thesis
      by (simp add: format_02d_def str_int_def nat)
  qed
qed

text \<open>
  Claim C4. For a positive \<open>imt_size = n\<close> and every \<open>i\<close> below 20, the warm-up block of
  class \<^verbatim>\<open>C{i}\<close> in the set-up method is the \<open>i + 2\<close> lines from line
  \<open>50 + i * (i + 3) / 2\<close> on: the construction of one instance \<^verbatim>\<open>c{i}\<close>, then the \<open>i + 1\<close>
  calls \<^verbatim>\<open>callF{n*j}(c{i})\<close> for \<open>j\<close> from 0 to \<open>i\<close>, whose helpers are pairwise distinct.
\<close>

theorem warm_up_block:
  assumes "0 < n" and "i < 20"
  shows "take (i + 2) (drop (50 + i * (i + 3) div 2) (output_lines n))
           = (''        C'' @ str_int (int i) @ '' c'' @ str_int (int i) @ '' = new C''
                @ str_int (int i) @ ''();'')
             # map (\<lambda>j. ''        callF'' @ str_int (n * int j) @ ''(c'' @ str_int (int i) @ '');'')
                 [0..<Suc i]
       \<and> length (map (\<lambda>j. ''        callF'' @ str_int (n * int j) @ ''(c'' @ str_int (int i)
                @ '');'') [0..<Suc i]) = i + 1
       \<and> distinct (map (\<lambda>j. ''callF'' @ str_int (n * int j)) [0..<Suc i])"
proof (intro conjI)
  have "nat (int i + 1) = Suc i"
    by simp
  then show "take (i + 2) (drop (50 + i * (i + 3) div 2) (output_lines n))
           = (''        C'' @ str_int (int i) @ '' c'' @ str_int (int i) @ '' = new C''
                @ str_int (int i) @ ''();'')
             # map (\<lambda>j. ''        callF'' @ str_int (n * int j) @ ''(c'' @ str_int (int i) @ '');'')
                 [0..<Suc i]"
    using assms(2)
    by (simp only: setup_block_at setup_block_def new_instance_def setup_call_def range_py_def
        map_map comp_def)
  show "length (map (\<lambda>j. ''        callF'' @ str_int (n * int j) @ ''(c'' @ str_int (int i)
                @ '');'') [0..<Suc i]) = i + 1"
    by simp
  show "distinct (map (\<lambda>j. ''callF'' @ str_int (n * int j)) [0..<Suc i])"
    using distinct_fmt_mult [OF assms(1), of "''callF''" "[]" "Suc i"] by simp
qed

text \<open>The warm-up of class \<^verbatim>\<open>C5\<close> for \<open>imt_size = 1\<close>.\<close>

theorem warm_up_block_witness:
  "0 < (1::int) \<and> (5::nat) < 20
   \<and> take 7 (drop 70 (output_lines 1))
       = [''        C5 c5 = new C5();'', ''        callF0(c5);'', ''        callF1(c5);'',
          ''        callF2(c5);'', ''        callF3(c5);'', ''        callF4(c5);'',
          ''        callF5(c5);'']"
proof -
  have n: "0 < (1::int)" and i: "(5::nat) < 20"
    by simp_all
  have "[0..<Suc 5] = [0, 1, 2, 3, 4, 5]"
    by (simp add: upt_rec)
  moreover have "(5::nat) * (5 + 3) div 2 = 20"
    by simp
  moreover from warm_up_block [OF n i]
  have "take (5 + 2) (drop (50 + 5 * (5 + 3) div 2) (output_lines 1))
           = (''        C'' @ str_int (int 5) @ '' c'' @ str_int (int 5) @ '' = new C''
                @ str_int (int 5) @ ''();'')
             # map (\<lambda>j. ''        callF'' @ str_int (1 * int j) @ ''(c'' @ str_int (int 5) @ '');'')
                 [0..<Suc 5]"
    by (rule conjunct1)
  ultimately show ?thesis
    by (simp add: str_int_small str_int_5)
qed

lemma format_02d_6: "format_02d 6 = ''06''"
  by code_simp

text \<open>
  Claim C2. For every \<open>imt_size = n\<close> and every \<open>i\<close> below 20, the 27 lines of the generated
  file from line \<open>281 + 27 * i\<close> on are the test case for conflict depth \<open>i + 1\<close>: the
  annotation, the method header with the depth written with two digits, the construction
  of one instance of \<^verbatim>\<open>C{i}\<close>, the benchmark state, the loop head, exactly 20 calls, of
  which call \<open>j\<close> is \<^verbatim>\<open>callF{n*(j mod (i+1))}(c{i})\<close>, and the two closing braces.
\<close>

theorem benchmark_method:
  assumes "i < 20"
  shows "take 27 (drop (281 + 27 * i) (output_lines n))
           = [''    @Test'',
              ''    public void timeConflictDepth'' @ format_02d (int i + 1) @ ''() {'',
              ''        C'' @ str_int (int i) @ '' c'' @ str_int (int i) @ '' = new C''
                @ str_int (int i) @ ''();'',
              ''        BenchmarkState state = mPerfStatusReporter.getBenchmarkState();'',
              ''        while (state.keepRunning()) {'']
             @ map (\<lambda>j. ''            callF'' @ str_int (n * (int j mod (int i + 1))) @ ''(c''
                 @ str_int (int i) @ '');'') [0..<20]
             @ [''        }'', ''    }'']
       \<and> length (map (\<lambda>j. ''            callF'' @ str_int (n * (int j mod (int i + 1))) @ ''(c''
                 @ str_int (int i) @ '');'') [0..<20]) = 20
       \<and> format_02d (int i + 1)
           = (if i < 9 then CHR ''0'' # str_int (int i + 1) else str_int (int i + 1))"
proof (intro conjI)
  show "take 27 (drop (281 + 27 * i) (output_lines n))
           = [''    @Test'',
              ''    public void timeConflictDepth'' @ format_02d (int i + 1) @ ''() {'',
              ''        C'' @ str_int (int i) @ '' c'' @ str_int (int i) @ '' = new C''
                @ str_int (int i) @ ''();'',
              ''        BenchmarkState state = mPerfStatusReporter.getBenchmarkState();'',
              ''        while (state.keepRunning()) {'']
             @ map (\<lambda>j. ''            callF'' @ str_int (n * (int j mod (int i + 1))) @ ''(c''
                 @ str_int (int i) @ '');'') [0..<20]
             @ [''        }'', ''    }'']"
    using assms
    by (simp only: test_method_at test_method_def new_instance_def test_call_def range_py_depth
        map_map comp_def)
  show "length (map (\<lambda>j. ''            callF'' @ str_int (n * (int j mod (int i + 1))) @ ''(c''
                 @ str_int (int i) @ '');'') [0..<20]) = 20"
    by simp
  show "format_02d (int i + 1)
           = (if i < 9 then CHR ''0'' # str_int (int i + 1) else str_int (int i + 1))"
    using assms by (rule format_02d_depth)
qed

text \<open>
  For \<open>imt_size = 1\<close>, \<^verbatim>\<open>timeConflictDepth06\<close> cycles through \<^verbatim>\<open>callF0\<close> to \<^verbatim>\<open>callF5\<close>.
\<close>

theorem benchmark_method_witness:
  "(5::nat) < 20
   \<and> take 27 (drop 416 (output_lines 1))
       = [''    @Test'',
          ''    public void timeConflictDepth06() {'',
          ''        C5 c5 = new C5();'',
          ''        BenchmarkState state = mPerfStatusReporter.getBenchmarkState();'',
          ''        while (state.keepRunning()) {'',
          ''            callF0(c5);'', ''            callF1(c5);'', ''            callF2(c5);'',
          ''            callF3(c5);'', ''            callF4(c5);'', ''            callF5(c5);'',
          ''            callF0(c5);'', ''            callF1(c5);'', ''            callF2(c5);'',
          ''            callF3(c5);'', ''            callF4(c5);'', ''            callF5(c5);'',
          ''            callF0(c5);'', ''            callF1(c5);'', ''            callF2(c5);'',
          ''            callF3(c5);'', ''            callF4(c5);'', ''            callF5(c5);'',
          ''            callF0(c5);'', ''            callF1(c5);'',
          ''        }'',
          ''    }'']"
proof -
  have i: "(5::nat) < 20"
    by simp
  from benchmark_method [OF i, of 1]
  have "take 27 (drop (281 + 27 * 5) (output_lines 1))
           = [''    @Test'',
              ''    public void timeConflictDepth'' @ format_02d (int 5 + 1) @ ''() {'',
              ''        C'' @ str_int (int 5) @ '' c'' @ str_int (int 5) @ '' = new C''
                @ str_int (int 5) @ ''();'',
              ''        BenchmarkState state = mPerfStatusReporter.getBenchmarkState();'',
              ''        while (state.keepRunning()) {'']
             @ map (\<lambda>j. ''            callF'' @ str_int (1 * (int j mod (int 5 + 1))) @ ''(c''
                 @ str_int (int 5) @ '');'') [0..<20]
             @ [''        }'', ''    }'']"
    by (rule conjunct1)
  moreover have "[0..<20] = [0, 1, 2, 3, 4, 5, 6, 7, 8, 9, 10, 11, 12, 13, 14, 15, 16, 17, 18, 19::nat]"
    by code_simp
  ultimately show ?thesis
    by (simp add: str_int_small str_int_5 format_02d_6)
qed


section \<open>Arguments that are not positive, determinism, and the order of the sections\<close>

lemmas py_int_defs = py_int_def is_ascii_def int_ascii_def strip_def is_space_def is_digit_def
  digit_val_def

lemma py_int_zero: "py_int u ''0'' = Inr 0"
  by (simp add: py_int_defs)

lemma py_int_minus_five: "py_int u ''-5'' = Inr (- 5)"
  by (simp add: py_int_defs)



lemma replicate_two: "replicate 2 x = [x, x]"
  by (simp add: numeral_2_eq_2)

lemma print_all_nonempty: "print_all (generate n) \<noteq> []"
  by (simp add: generate_def print_all_def print_def)

text \<open>
  Claim C7. The conversion does not check the sign: whenever \<^verbatim>\<open>int\<close> accepts the argument,
  as it does for \<^verbatim>\<open>0\<close> and \<^verbatim>\<open>-5\<close>, the run exits with status 0 and prints the generated
  file, which is not empty. For an \<open>imt_size\<close> that is not positive no method is declared
  at all; for \<open>imt_size = 0\<close> every interface block is an opening line and a closing
  brace, every helper is \<^verbatim>\<open>callF0\<close> calling \<^verbatim>\<open>f0\<close>, and the warm-up of class \<^verbatim>\<open>C{i}\<close> makes
  the same call \<open>i + 1\<close> times.
\<close>

theorem nonpositive_size_accepted:
  "(1 < length argv \<and> py_int u (argv ! 1) = Inr n \<longrightarrow>
      exit_status (main u argv) = 0
      \<and> stdout (main u argv) = print_all (generate n)
      \<and> stdout (main u argv) \<noteq> []
      \<and> lines_of (stdout (main u argv)) = output_lines n)
   \<and> py_int u ''0'' = Inr 0
   \<and> py_int u ''-5'' = Inr (- 5)
   \<and> (n \<le> 0 \<longrightarrow> filter (starts_with ''        default void f'') (output_lines n) = [])
   \<and> (i < 20 \<longrightarrow>
        take 2 (drop (861 + 2 * i) (output_lines 0))
          = [''    interface I'' @ str_int (int i) @ '' {'', ''    }'']
        \<and> output_lines 0 ! (821 + i)
          = ''    public void callF0(I'' @ str_int (int i) @ '' i) { i.f0(); }''
        \<and> take (i + 2) (drop (50 + i * (i + 3) div 2) (output_lines 0))
          = (''        C'' @ str_int (int i) @ '' c'' @ str_int (int i) @ '' = new C''
               @ str_int (int i) @ ''();'')
            # replicate (i + 1) (''        callF0(c'' @ str_int (int i) @ '');'')
        \<and> (0 < i \<longrightarrow> \<not> distinct (map (\<lambda>j. ''callF'' @ str_int (0 * int j)) [0..<Suc i])))"
proof (intro conjI impI)
  assume ok: "1 < length argv \<and> py_int u (argv ! 1) = Inr n"
  then have m: "main u argv = \<lparr>stdout = print_all (generate n), exit_status = 0\<rparr>"
    by (simp add: main_generate)
  show "exit_status (main u argv) = 0"
    by (simp add: m)
  show "stdout (main u argv) = print_all (generate n)"
    by (simp add: m)
  show "stdout (main u argv) \<noteq> []"
    by (simp add: m print_all_nonempty)
  show "lines_of (stdout (main u argv)) = output_lines n"
    by (simp add: m output_lines_def)
next
  show "py_int u ''0'' = Inr 0"
    by (rule py_int_zero)
  show "py_int u ''-5'' = Inr (- 5)"
    by (rule py_int_minus_five)
next
  assume "n \<le> 0"
  then show "filter (starts_with ''        default void f'') (output_lines n) = []"
    by (simp add: methods_only)
next
  assume i: "i < 20"
  have "nat 0 + 2 = 2"
    by simp
  with interface_block_at [OF i, of 0]
  have "take 2 (drop (861 + 2 * i) (output_lines 0)) = interface_def 0 (int i)"
    by (simp only:)
  then show "take 2 (drop (861 + 2 * i) (output_lines 0))
          = [''    interface I'' @ str_int (int i) @ '' {'', ''    }'']"
    by (simp only: interface_def_def range_py_def) simp
  show "output_lines 0 ! (821 + i)
          = ''    public void callF0(I'' @ str_int (int i) @ '' i) { i.f0(); }''"
    using i by (simp add: helper_at call_helper_def str_int_small)
  have "setup_call 0 (int i) = (\<lambda>j. ''        callF0(c'' @ str_int (int i) @ '');'')"
    by (simp add: fun_eq_iff setup_call_def str_int_small)
  moreover have "length (range_py (int i + 1)) = i + 1"
    by (simp add: length_range_py)
  ultimately have "map (setup_call 0 (int i)) (range_py (int i + 1))
      = replicate (i + 1) (''        callF0(c'' @ str_int (int i) @ '');'')"
    by (simp only: map_replicate_const)
  then show "take (i + 2) (drop (50 + i * (i + 3) div 2) (output_lines 0))
          = (''        C'' @ str_int (int i) @ '' c'' @ str_int (int i) @ '' = new C''
               @ str_int (int i) @ ''();'')
            # replicate (i + 1) (''        callF0(c'' @ str_int (int i) @ '');'')"
    using i by (simp only: setup_block_at setup_block_def new_instance_def)
next
  assume "0 < i"
  then obtain k where k: "i = Suc k"
    using gr0_implies_Suc by blast
  have "map (\<lambda>j. ''callF'' @ str_int (0 * int j)) [0..<Suc i]
      = replicate (Suc i) (''callF'' @ str_int 0)"
    by (simp only: mult_zero_left map_replicate_const length_upt diff_zero)
  then show "\<not> distinct (map (\<lambda>j. ''callF'' @ str_int (0 * int j)) [0..<Suc i])"
    by (simp only: k replicate_Suc) simp
qed

text \<open>
  The argument \<^verbatim>\<open>-5\<close> gives exit status 0, and for \<open>imt_size = 0\<close> the warm-up of class
  \<^verbatim>\<open>C1\<close> calls \<^verbatim>\<open>callF0\<close> twice.
\<close>

theorem nonpositive_size_accepted_witness:
  "exit_status (main (\<lambda>s. Inl ValueError) [''ImtConflictPerfTestGen.py'', ''-5'']) = 0
   \<and> filter (starts_with ''        default void f'') (output_lines (- 5)) = []
   \<and> take 2 (drop 863 (output_lines 0)) = [''    interface I1 {'', ''    }'']
   \<and> take 3 (drop 52 (output_lines 0))
       = [''        C1 c1 = new C1();'', ''        callF0(c1);'', ''        callF0(c1);'']"
proof -
  let ?argv = "[''ImtConflictPerfTestGen.py'', ''-5'']"
  let ?u = "\<lambda>s::string. Inl ValueError :: py_error + int"
  note inst = nonpositive_size_accepted [of ?argv ?u "- 5" 1]
  have ok: "1 < length ?argv \<and> py_int ?u (?argv ! 1) = Inr (- 5)"
    by (simp add: py_int_minus_five)
  with inst have 1: "exit_status (main ?u ?argv) = 0"
    by blast
  from inst have 2: "filter (starts_with ''        default void f'') (output_lines (- 5)) = []"
    by simp
  have i: "(1::nat) < 20"
    by simp
  with inst have "take 2 (drop (861 + 2 * 1) (output_lines 0))
          = [''    interface I'' @ str_int (int 1) @ '' {'', ''    }'']"
    and "take (1 + 2) (drop (50 + 1 * (1 + 3) div 2) (output_lines 0))
          = (''        C'' @ str_int (int 1) @ '' c'' @ str_int (int 1) @ '' = new C''
               @ str_int (int 1) @ ''();'')
            # replicate (1 + 1) (''        callF0(c'' @ str_int (int 1) @ '');'')"
    by blast+
  then have 3: "take 2 (drop 863 (output_lines 0)) = [''    interface I1 {'', ''    }'']"
    and 4: "take 3 (drop 52 (output_lines 0))
       = [''        C1 c1 = new C1();'', ''        callF0(c1);'', ''        callF0(c1);'']"
    by (simp_all add: str_int_small replicate_two numeral_3_eq_3)
  from 1 2 3 4 show ?thesis
    by (intro conjI)
qed



lemma lines_of_print_append: "lines_of (print p @ t) = lines_of (print p) @ lines_of t"
  using lines_of_print_all_append [of "[p]" t] by (simp add: print_all_def)

lemma lines_of_print_line: "nl \<notin> set p \<Longrightarrow> lines_of (print p) = [p]"
  by (simp add: lines_of_def print_def lines_from_line)

lemma preamble_lines_parts:
  "preamble_lines =
     lines_of (print license) @ [''package android.libcore;''] @ lines_of (print imports_decl)
     @ lines_of (print description)
     @ [''@RunWith(AndroidJUnit4.class)'', ''@LargeTest'', ''public class ImtConflictPerfTest {'',
        ''    @Rule'',
        ''    public PerfStatusReporter mPerfStatusReporter = new PerfStatusReporter();'', []]"
proof -
  let ?rest = "[''@RunWith(AndroidJUnit4.class)'', ''@LargeTest'',
    ''public class ImtConflictPerfTest {'', ''    @Rule'',
    ''    public PerfStatusReporter mPerfStatusReporter = new PerfStatusReporter();'', []]"
  have "print_all preamble
      = print license @ print ''package android.libcore;'' @ print imports_decl
        @ print description @ print_all ?rest"
    by (simp add: preamble_def print_all_def)
  then have "lines_of (print_all preamble)
      = lines_of (print license) @ lines_of (print ''package android.libcore;'')
        @ lines_of (print imports_decl) @ lines_of (print description)
        @ lines_of (print_all ?rest)"
    by (simp only: lines_of_print_append)
  moreover have "lines_of (print ''package android.libcore;'') = [''package android.libcore;'']"
    by (rule lines_of_print_line) (simp add: nl_eq_iff)
  moreover have "lines_of (print_all ?rest) = ?rest"
    by (rule lines_of_print_all) (auto simp: nl_eq_iff)
  ultimately show ?thesis
    by (simp only: lines_of_preamble)
qed

lemma tests_only:
  "filter (starts_with ''    @Test'') (output_lines n) = replicate 20 ''    @Test''"
proof -
  let ?P = "starts_with ''    @Test''"
  have 1: "filter ?P preamble_lines = []"
    by (simp add: preamble_lines_def)
  have 2: "filter ?P (setup_method n) = []"
    by (simp add: setup_method_def setup_block_def line_defs filter_concat comp_def filter_empty_conv)
  have "filter ?P (test_method n i) = [''    @Test'']" for i
    by (simp add: test_method_def line_defs filter_empty_conv)
  then have "filter ?P (test_methods n) = concat (map (\<lambda>i. [''    @Test'']) [0..<20])"
    by (simp add: test_methods_def range_py_depth filter_concat comp_def)
  also have "\<dots> = replicate 20 ''    @Test''"
    by (simp add: map_replicate_const)
  finally have 3: "filter ?P (test_methods n) = replicate 20 ''    @Test''" .
  have 4: "filter ?P (call_helpers n) = []"
    by (simp add: call_helpers_def line_defs filter_empty_conv)
  have 5: "filter ?P class_defs = []"
    by (simp add: class_defs_def line_defs filter_empty_conv)
  have 6: "filter ?P (interface_defs n) = []"
    by (simp add: interface_defs_def interface_def_def line_defs filter_concat comp_def filter_empty_conv)
  show ?thesis
    by (simp only: output_lines_sections filter_append 1 2 3 4 5 6) simp
qed

lemma before_only:
  "filter (starts_with ''    @Before'') (output_lines n) = [''    @Before'']"
proof -
  let ?P = "starts_with ''    @Before''"
  have 1: "filter ?P preamble_lines = []"
    by (simp add: preamble_lines_def)
  have 2: "filter ?P (setup_method n) = [''    @Before'']"
    by (simp add: setup_method_def setup_block_def line_defs filter_concat comp_def filter_empty_conv)
  have 3: "filter ?P (test_methods n) = []"
    by (simp add: test_methods_def test_method_def line_defs filter_concat comp_def filter_empty_conv)
  have 4: "filter ?P (call_helpers n) = []"
    by (simp add: call_helpers_def line_defs filter_empty_conv)
  have 5: "filter ?P class_defs = []"
    by (simp add: class_defs_def line_defs filter_empty_conv)
  have 6: "filter ?P (interface_defs n) = []"
    by (simp add: interface_defs_def interface_def_def line_defs filter_concat comp_def filter_empty_conv)
  show ?thesis
    by (simp only: output_lines_sections filter_append 1 2 3 4 5 6) simp
qed

text \<open>
  Claim C9. For every \<open>imt_size\<close> the lines of the generated file are, in this order: the
  license header, the package line, the import declarations, the documentation comment,
  the opening of the test class, the set-up method, the test cases, the dispatch helpers,
  the class declarations, the interface declarations, and the brace that closes the test
  class. The set-up method is the only one annotated \<^verbatim>\<open>@Before\<close>; there are 20 test
  annotations, 20 helper lines, 20 class lines and 20 interface openings in the file, each
  kind inside its own section.
\<close>

theorem sections_in_order:
  "output_lines n =
     lines_of (print license) @ [''package android.libcore;''] @ lines_of (print imports_decl)
     @ lines_of (print description)
     @ [''@RunWith(AndroidJUnit4.class)'', ''@LargeTest'', ''public class ImtConflictPerfTest {'',
        ''    @Rule'',
        ''    public PerfStatusReporter mPerfStatusReporter = new PerfStatusReporter();'', []]
     @ setup_method n @ test_methods n @ call_helpers n @ class_defs @ interface_defs n
     @ [''}'']
   \<and> take 2 (setup_method n) = [''    @Before'', ''    public void setup() {'']
   \<and> filter (starts_with ''    @Before'') (output_lines n) = [''    @Before'']
   \<and> filter (starts_with ''    @Test'') (output_lines n) = replicate 20 ''    @Test''
   \<and> filter (starts_with ''    @Test'') (test_methods n) = replicate 20 ''    @Test''
   \<and> filter (starts_with ''    public void callF'') (output_lines n) = call_helpers n
   \<and> length (call_helpers n) = 20
   \<and> filter (starts_with ''    static class C'') (output_lines n) = class_defs
   \<and> length class_defs = 20
   \<and> filter (starts_with ''    interface I'') (output_lines n)
       = filter (starts_with ''    interface I'') (interface_defs n)
   \<and> length (filter (starts_with ''    interface I'') (interface_defs n)) = 20"
proof (intro conjI)
  show "output_lines n =
     lines_of (print license) @ [''package android.libcore;''] @ lines_of (print imports_decl)
     @ lines_of (print description)
     @ [''@RunWith(AndroidJUnit4.class)'', ''@LargeTest'', ''public class ImtConflictPerfTest {'',
        ''    @Rule'',
        ''    public PerfStatusReporter mPerfStatusReporter = new PerfStatusReporter();'', []]
     @ setup_method n @ test_methods n @ call_helpers n @ class_defs @ interface_defs n
     @ [''}'']"
    using preamble_lines_parts by (simp add: output_lines_sections)
  show "take 2 (setup_method n) = [''    @Before'', ''    public void setup() {'']"
    by (simp add: setup_method_def)
  show "filter (starts_with ''    @Before'') (output_lines n) = [''    @Before'']"
    by (rule before_only)
  show "filter (starts_with ''    @Test'') (output_lines n) = replicate 20 ''    @Test''"
    by (rule tests_only)
  have "filter (starts_with ''    @Test'') (test_method n i) = [''    @Test'']" for i
    by (simp add: test_method_def line_defs filter_empty_conv)
  then have "filter (starts_with ''    @Test'') (test_methods n)
      = concat (map (\<lambda>i. [''    @Test'']) [0..<20])"
    by (simp add: test_methods_def range_py_depth filter_concat comp_def)
  then show "filter (starts_with ''    @Test'') (test_methods n) = replicate 20 ''    @Test''"
    by (simp add: map_replicate_const)
  show "filter (starts_with ''    public void callF'') (output_lines n) = call_helpers n"
    by (rule helpers_only)
  show "length (call_helpers n) = 20"
    by (rule length_call_helpers)
  show "filter (starts_with ''    static class C'') (output_lines n) = class_defs"
    by (rule classes_only)
  show "length class_defs = 20"
    by (rule length_class_defs)
  have "filter (starts_with ''    interface I'') (interface_def n i)
      = [''    interface I'' @ str_int i @ '' {'']" for i
    by (simp add: interface_def_def line_defs filter_empty_conv)
  then have own: "filter (starts_with ''    interface I'') (interface_defs n)
      = map (\<lambda>k. ''    interface I'' @ str_int (int k) @ '' {'') [0..<20]"
    by (simp add: interface_defs_def range_py_depth filter_concat comp_def)
  then show "filter (starts_with ''    interface I'') (output_lines n)
       = filter (starts_with ''    interface I'') (interface_defs n)"
    by (simp only: interfaces_only)
  from own show "length (filter (starts_with ''    interface I'') (interface_defs n)) = 20"
    by simp
qed

end
